theory Spec2Isabelle
  imports Main "HOL-Library.Word"
begin

unbundle bit_operations_syntax

section \<open>Basic types\<close>

text \<open>
  \<open>util.Hash\<close>, \<open>transaction.TXID\<close>, public keys and \<open>address.Address\<close> are
  fixed-size byte arrays; each is kept as its list of bytes.  The zero value of such an
  array, \<open>[32]byte{}\<close>, is the list of 32 zero bytes.
\<close>

type_synonym byte = "8 word"
type_synonym uint32 = "32 word"
type_synonym uint64 = "64 word"
type_synonym Hash = "byte list"
type_synonym TXID = "byte list"
type_synonym Pubkey = "byte list"
type_synonym Address = "byte list"

text \<open>Every \<open>return fmt.Errorf(...)\<close>, \<open>errors.New(...)\<close> and panic of the modelled
  functions is one constructor.\<close>

datatype error =
    Panic_overflow
  | Panic_division_by_zero
  | Panic_nil_dereference
  | Panic_index_out_of_range
  | Panic_masterchain
  | Err_failed_to_get_difficulty
  | Err_invalid_diff
  | Err_invalid_height
  | Err_timestamp_older
  | Err_subsequent_block_invalid
  | Err_common_block_not_found
  | Err_side_block_already_included nat
  | Err_invalid_cumulative_diff
  | Err_block_not_found Hash
  | Err_duplicate_block
  | Err_orphan_already_exists
  | Err_blData_is_empty
  | Err_could_not_find_common_block
  | Err_reorg_height_zero
  | Err_tx_not_found TXID
  | Err_address_not_in_state Address
  | Err_spends_too_much
  | Err_unexpected_nonce
  | Err_coinbase_balance_too_small
  | Err_coinbase_LastIncoming_zero
  | Err_recipient_balance_too_small
  | Err_recipient_LastIncoming_zero
  | Err_sender_LastNonce_zero
  | Err_not_sorted
  | Err_duplicate_hashing_id
  | Err_duplicate_network_id
  | Err_missing_network_id
  | Err_unknown_block

section \<open>128-bit unsigned integers (package \<open>util/uint128\<close>)\<close>

text \<open>
  \<open>Uint128\<close> is the pair \<open>{Lo, Hi uint64}\<close> read as \<open>Hi * 2^64 + Lo\<close>; the model keeps
  the 128-bit value.  The package itself is not among the sources; its operations are
  the ones the callers in \<open>block.go\<close> and the chain engine name.
\<close>

type_synonym Uint128 = "128 word"

definition Max_u128 :: Uint128 where
  "Max_u128 = - 1"

definition IsZero :: "Uint128 \<Rightarrow> bool" where
  "IsZero u = (u = 0)"

definition Equals :: "Uint128 \<Rightarrow> Uint128 \<Rightarrow> bool" where
  "Equals u v = (u = v)"

definition Cmp :: "Uint128 \<Rightarrow> Uint128 \<Rightarrow> int" where
  "Cmp u v = (if u = v then 0 else if u < v then - 1 else 1)"

text \<open>Modelled from the spec: \<open>Uint128.Div\<close> is missing from the sources; the spec's
  \<open>PoW \<le> MAX/difficulty\<close> is the truncating quotient of two 128-bit values, and a zero
  divisor panics (Go's integer division).\<close>

definition Div :: "Uint128 \<Rightarrow> Uint128 \<Rightarrow> error + Uint128" where
  "Div u v = (if v = 0 then Inl Panic_division_by_zero else Inr (u div v))"

section \<open>Configuration and external functions\<close>

text \<open>
  The constants of package \<open>config\<close> and the functions of packages that are not among
  the sources (\<open>blake3\<close>, \<open>address\<close>, the \<open>Commitment\<close> methods, the reward schedule)
  are parameters of the model: one record of constants, passed to every function that
  reads one.
\<close>

record config =
  NETWORK_ID :: uint64
  IS_MASTERCHAIN :: bool
  PARALLEL_BLOCKS_DOWNLOAD :: nat
  BLOCK_REWARD_FEE_PERCENT :: uint64
  MINIDAG_ANCESTORS :: uint64
  GenesisAddress :: Address

section \<open>Blocks (\<open>block.go\<close>)\<close>

record HashingID =
  NetworkID :: uint64
  hid_Hash :: Hash

text \<open>The fields of \<open>MiningBlob\<close> and \<open>Commitment\<close> that the sources read; both types
  are declared in a file that is not among them.\<close>

record MiningBlob =
  mb_Timestamp :: uint64
  mb_Nonce :: uint32
  mb_NonceExtra :: "byte list"
  Chains :: "HashingID list"

record Commitment =
  BaseHash :: Hash
  c_Timestamp :: uint64
  c_Ancestors :: "Hash list"

record BlockHeader =
  Version :: byte
  Height :: uint64
  Timestamp :: uint64
  Nonce :: uint32
  NonceExtra :: "byte list"
  OtherChains :: "HashingID list"
  Recipient :: Address
  Ancestors :: "Hash list"
  SideBlocks :: "Commitment list"

record Block = BlockHeader +
  Difficulty :: Uint128
  CumulativeDiff :: Uint128
  Transactions :: "TXID list"

definition PrevHash :: "'a BlockHeader_scheme \<Rightarrow> error + Hash" where
  "PrevHash b = (case Ancestors b of [] \<Rightarrow> Inl Panic_index_out_of_range | h # _ \<Rightarrow> Inr h)"

subsection \<open>The forward codec\<close>

text \<open>Modelled from the spec: \<open>binary.Ser\<close> is missing from the sources.  The spec's
  codec section: a forward builder appends fixed-width little-endian integers and unsigned
  LEB128 varints; a length-prefixed byte slice carries its length as a uvarint.  The
  buffer handed to \<open>NewSer\<close> is capacity only.\<close>

function AddUvarint :: "uint64 \<Rightarrow> byte list" where
  "AddUvarint x =
     (if 128 \<le> x then (ucast x OR 128) # AddUvarint (drop_bit 7 x) else [ucast x])"
  by pat_completeness auto
termination
proof (relation "measure unat")
  show "wf (measure (unat :: uint64 \<Rightarrow> nat))"
    by simp
next
  fix x :: uint64
  assume "128 \<le> x"
  then have "128 \<le> unat x"
    by (simp add: word_le_nat_alt)
  then have "unat x div 128 < unat x"
    by simp
  then show "(drop_bit 7 x, x) \<in> measure unat"
    by (simp add: unat_drop_bit_eq drop_bit_eq_div unat_div)
qed

definition le_bytes :: "nat \<Rightarrow> 'a::len word \<Rightarrow> byte list" where
  "le_bytes n w = map (\<lambda>i. ucast (drop_bit (8 * i) w)) [0..<n]"

definition AddUint8 :: "byte \<Rightarrow> byte list" where
  "AddUint8 b = [b]"

definition AddUint32 :: "uint32 \<Rightarrow> byte list" where
  "AddUint32 w = le_bytes 4 w"

definition AddUint64 :: "uint64 \<Rightarrow> byte list" where
  "AddUint64 w = le_bytes 8 w"

definition AddByteSlice :: "byte list \<Rightarrow> byte list" where
  "AddByteSlice bs = AddUvarint (of_nat (length bs)) @ bs"

text \<open>\<open>Uint128.PutBytes\<close> writes the 16 little-endian bytes of the value.\<close>

definition PutBytes :: "Uint128 \<Rightarrow> byte list" where
  "PutBytes u = le_bytes 16 u"

text \<open>The loop \<open>for len(diff) > 0 && diff[len(diff)-1] == 0 { diff = diff[:len(diff)-1] }\<close>.\<close>

definition strip_trailing_zeros :: "byte list \<Rightarrow> byte list" where
  "strip_trailing_zeros bs = rev (dropWhile (\<lambda>b. b = 0) (rev bs))"

subsection \<open>Serialization and hash of a block\<close>

text \<open>\<open>cser\<close> stands for \<open>Commitment.Serialize\<close>, which is not among the sources.\<close>

definition BlockHeader_Serialize ::
  "(Commitment \<Rightarrow> byte list) \<Rightarrow> 'a BlockHeader_scheme \<Rightarrow> byte list" where
  "BlockHeader_Serialize cser b =
     AddUint8 (Version b) @ AddUvarint (Height b) @ AddUvarint (Timestamp b) @
     AddUint32 (Nonce b) @ NonceExtra b @ Recipient b @
     concat (Ancestors b) @
     AddUvarint (of_nat (length (OtherChains b))) @
     concat (map (\<lambda>v. AddUint64 (NetworkID v) @ hid_Hash v) (OtherChains b)) @
     AddUvarint (of_nat (length (SideBlocks b))) @
     concat (map cser (SideBlocks b))"

text \<open>\<open>Block.Serialize\<close>.  A Go \<open>nil\<close> slice is \<open>None\<close>.\<close>

definition Serialize :: "(Commitment \<Rightarrow> byte list) \<Rightarrow> Block \<Rightarrow> byte list option" where
  "Serialize cser b =
     (if IsZero (Difficulty b) then None
      else Some
        (BlockHeader_Serialize cser b @
         AddByteSlice (strip_trailing_zeros (PutBytes (Difficulty b))) @
         AddByteSlice (strip_trailing_zeros (PutBytes (CumulativeDiff b))) @
         AddUvarint (of_nat (length (Transactions b))) @
         concat (Transactions b)))"

text \<open>\<open>b.Serialize()[:]\<close> of a \<open>nil\<close> slice is \<open>nil\<close>, which \<open>blake3.Sum256\<close> reads as
  the empty input.\<close>

definition bytes_of :: "byte list option \<Rightarrow> byte list" where
  "bytes_of s = (case s of None \<Rightarrow> [] | Some bs \<Rightarrow> bs)"

text \<open>\<open>Block.Hash\<close>; \<open>blake3\<close> stands for \<open>blake3.Sum256\<close>.\<close>

definition Block_Hash ::
  "(byte list \<Rightarrow> Hash) \<Rightarrow> (Commitment \<Rightarrow> byte list) \<Rightarrow> Block \<Rightarrow> Hash" where
  "Block_Hash blake3 cser b = blake3 (bytes_of (Serialize cser b))"

subsection \<open>Mining blob\<close>

text \<open>The inner loop \<open>for _, oc := range b.OtherChains\<close> of \<open>setMiningBlob\<close>.\<close>

definition has_duplicate :: "HashingID list \<Rightarrow> HashingID \<Rightarrow> bool" where
  "has_duplicate ocs v =
     (\<exists>oc \<in> set ocs. hid_Hash oc = hid_Hash v \<or> NetworkID oc = NetworkID v)"

text \<open>
  The loop \<open>for _, v := range m.Chains\<close> of \<open>setMiningBlob\<close>, with its local variables
  \<open>b.OtherChains\<close>, \<open>containsNetworkID\<close> and \<open>lastNetworkId\<close> as arguments.  The result
  is the error, or the final \<open>OtherChains\<close>.  The branch of a chain of another network
  ends in \<open>return nil\<close>; \<open>lastNetworkId\<close> is never assigned.
\<close>

fun setMiningBlob_loop ::
  "config \<Rightarrow> HashingID list \<Rightarrow> HashingID list \<Rightarrow> bool \<Rightarrow> uint64 \<Rightarrow>
     error option \<times> HashingID list" where
  "setMiningBlob_loop cfg [] ocs containsNetworkID lastNetworkId =
     (if \<not> containsNetworkID then (Some Err_missing_network_id, ocs) else (None, ocs))"
| "setMiningBlob_loop cfg (v # vs) ocs containsNetworkID lastNetworkId =
     (if NetworkID v \<noteq> NETWORK_ID cfg then
        (if NetworkID v \<le> lastNetworkId then (Some Err_not_sorted, ocs)
         else if has_duplicate ocs v then (Some Err_duplicate_hashing_id, ocs)
         else (None, ocs @ [v]))
      else
        (if containsNetworkID then (Some Err_duplicate_network_id, ocs)
         else setMiningBlob_loop cfg vs ocs True lastNetworkId))"

text \<open>\<open>setMiningBlob\<close> writes through the pointer \<open>b\<close> before and during the loop, so
  the block is returned next to the error (\<open>None\<close> is Go's \<open>nil\<close> error).\<close>

definition setMiningBlob :: "config \<Rightarrow> Block \<Rightarrow> MiningBlob \<Rightarrow> error option \<times> Block" where
  "setMiningBlob cfg b m =
     (case setMiningBlob_loop cfg (Chains m) [] False 0 of
        (err, ocs) \<Rightarrow>
          (err, b\<lparr>Timestamp := mb_Timestamp m, Nonce := mb_Nonce m,
                  NonceExtra := mb_NonceExtra m, OtherChains := ocs\<rparr>))"

definition SetMiningBlob :: "config \<Rightarrow> Block \<Rightarrow> MiningBlob \<Rightarrow> error option \<times> Block" where
  "SetMiningBlob cfg b m =
     (if IS_MASTERCHAIN cfg then (Some Panic_masterchain, b) else setMiningBlob cfg b m)"

section \<open>Proof of work (\<open>block.go\<close>)\<close>

definition ValidPowValue :: "Uint128 \<Rightarrow> Uint128 \<Rightarrow> error + bool" where
  "ValidPowValue val diff =
     (case Div Max_u128 diff of
        Inl e \<Rightarrow> Inl e
      | Inr q \<Rightarrow> Inr (Cmp val q \<le> 0))"

section \<open>Download queue and sync driver\<close>

text \<open>Modelled from the spec: the block queue (\<open>BlockQueue\<close>, \<open>QueueTx\<close>,
  \<open>QueuedBlock\<close>) is missing from the sources.  The spec's download queue: an ordered
  collection keyed by (height, hash) with entries in state Requested, Downloading or
  Downloaded; \<open>set_block(qb, force)\<close> inserts or upgrades and is a no-op if the entry is
  present and \<open>force\<close> is false; \<open>length()\<close> is the number of entries;
  \<open>block_downloaded\<close> and \<open>remove_block\<close> are the transition and the drop of one
  entry.\<close>

datatype QueueState = Requested | Downloading | Downloaded_state

record QueuedBlock =
  qb_Height :: uint64
  qb_Hash :: Hash
  qb_State :: QueueState

type_synonym QueueTx = "QueuedBlock list"

definition NewQueuedBlock :: "uint64 \<Rightarrow> Hash \<Rightarrow> QueuedBlock" where
  "NewQueuedBlock h hash = \<lparr>qb_Height = h, qb_Hash = hash, qb_State = Requested\<rparr>"

definition same_key :: "QueuedBlock \<Rightarrow> QueuedBlock \<Rightarrow> bool" where
  "same_key a b = (qb_Height a = qb_Height b \<and> qb_Hash a = qb_Hash b)"

definition Length :: "QueueTx \<Rightarrow> nat" where
  "Length qt = length qt"

definition SetBlock :: "QueueTx \<Rightarrow> QueuedBlock \<Rightarrow> bool \<Rightarrow> QueueTx" where
  "SetBlock qt qb force =
     (if \<exists>e \<in> set qt. same_key e qb
      then (if force then map (\<lambda>e. if same_key e qb then qb else e) qt else qt)
      else qt @ [qb])"

definition BlockDownloaded :: "QueueTx \<Rightarrow> uint64 \<Rightarrow> Hash \<Rightarrow> QueueTx" where
  "BlockDownloaded qt height hash =
     map (\<lambda>e. if qb_Height e = height \<and> qb_Hash e = hash
               then e\<lparr>qb_State := Downloaded_state\<rparr> else e) qt"

definition RemoveBlock :: "QueueTx \<Rightarrow> uint64 \<Rightarrow> Hash \<Rightarrow> QueueTx" where
  "RemoveBlock qt height hash =
     filter (\<lambda>e. \<not> (qb_Height e = height \<and> qb_Hash e = hash)) qt"

definition RemoveBlockByHeight :: "QueueTx \<Rightarrow> uint64 \<Rightarrow> QueueTx" where
  "RemoveBlockByHeight qt height = filter (\<lambda>e. qb_Height e \<noteq> height) qt"

text \<open>The zero value \<open>[32]byte{}\<close>.\<close>

definition zero_hash :: Hash where
  "zero_hash = replicate 32 0"

text \<open>
  The loop \<open>for i := topHeight + 1; i <= syncHeight; i++\<close> of \<open>fillQueue\<close>, with the
  local counter \<open>n\<close>.  \<open>i\<close> is a \<open>uint64\<close> and wraps.
\<close>

function fillQueue_loop :: "config \<Rightarrow> uint64 \<Rightarrow> uint64 \<Rightarrow> nat \<Rightarrow> QueueTx \<Rightarrow> QueueTx" where
  "fillQueue_loop cfg i syncHeight n qt =
     (if i \<le> syncHeight then
        (if n > PARALLEL_BLOCKS_DOWNLOAD cfg then qt
         else fillQueue_loop cfg (i + 1) syncHeight (n + 1)
                (SetBlock qt (NewQueuedBlock i zero_hash) False))
      else qt)"
  by pat_completeness auto
termination
  by (relation "measure (\<lambda>(cfg, i, syncHeight, n, qt). PARALLEL_BLOCKS_DOWNLOAD cfg + 1 - n)")
     auto

text \<open>\<open>fillQueue\<close>; \<open>syncHeight\<close> is the value read from \<open>bc.SyncHeight\<close>.\<close>

definition fillQueue :: "config \<Rightarrow> uint64 \<Rightarrow> QueueTx \<Rightarrow> uint64 \<Rightarrow> QueueTx" where
  "fillQueue cfg syncHeight qt topHeight =
     (if Length qt < PARALLEL_BLOCKS_DOWNLOAD cfg then
        (if syncHeight > topHeight
         then fillQueue_loop cfg (topHeight + 1) syncHeight (Length qt) qt
         else qt)
      else qt)"

section \<open>Chain state\<close>

text \<open>
  The records \<open>State\<close>, \<open>AltchainTip\<close>, \<open>Orphan\<close> and \<open>Stats\<close> are declared in files
  that are not among the sources; their fields are the ones the chain engine reads and
  writes.  \<open>Expires\<close> is a Unix time in seconds.
\<close>

record State =
  Balance :: uint64
  LastNonce :: uint64
  LastIncoming :: uint64

record Transaction =
  Sender :: Pubkey
  tx_Recipient :: Address
  Signature :: "byte list"
  tx_Nonce :: uint64
  Amount :: uint64
  Fee :: uint64
  Subaddr :: uint64

record AltchainTip =
  tip_Hash :: Hash
  tip_Height :: uint64
  tip_CumulativeDiff :: Uint128

record Orphan =
  Expires :: int
  o_Hash :: Hash
  o_PrevHash :: Hash

record Stats =
  TopHash :: Hash
  TopHeight :: uint64
  s_CumulativeDiff :: Uint128
  Tips :: "Hash \<rightharpoonup> AltchainTip"
  Orphans :: "Hash \<rightharpoonup> Orphan"

text \<open>
  The database and the fields of \<open>Blockchain\<close> the engine mutates.  Each bucket is a
  map from its key to the decoded value: \<open>BLOCK\<close> from the block hash, \<open>TOPO\<close> from the
  height (the key is its 8 little-endian bytes), \<open>STATE\<close> from the address, \<open>TX\<close> from
  the transaction id to the transaction and its height, \<open>INTX\<close> and \<open>OUTTX\<close> from the
  bytes \<open>address || uvarint(id)\<close>.  \<open>stats\<close> and \<open>mempool\<close> are the two entries of the
  \<open>INFO\<close> bucket.  \<open>GetStats\<close> and \<open>SetStats\<close> decode and encode the whole value, so a
  \<open>*Stats\<close> in a Go variable is a copy that reaches the database only through
  \<open>SetStats\<close>.
\<close>

record chain =
  BLOCK :: "Hash \<rightharpoonup> Block"
  TOPO :: "uint64 \<rightharpoonup> Hash"
  STATE :: "Address \<rightharpoonup> State"
  TX :: "TXID \<rightharpoonup> Transaction \<times> uint64"
  INTX :: "byte list \<rightharpoonup> TXID"
  OUTTX :: "byte list \<rightharpoonup> TXID"
  stats :: Stats
  mempool :: "TXID list"
  SyncHeight :: uint64
  SyncDiff :: Uint128
  BlockQueue :: QueueTx

text \<open>
  Functions of this repository and of its libraries that are not among the sources:
  \<open>blake3.Sum256\<close>, \<open>Commitment.Serialize\<close>, \<open>Block.Commitment\<close>,
  \<open>Commitment.Equals\<close>, \<open>Block.Reward\<close>, \<open>address.FromPubKey\<close> and
  \<open>Blockchain.GetNextDifficulty\<close>.  They are parameters of the model.
\<close>

record extern =
  x_blake3 :: "byte list \<Rightarrow> Hash"
  x_Serialize :: "Commitment \<Rightarrow> byte list"
  x_Commitment :: "Block \<Rightarrow> Commitment"
  x_Equals :: "Commitment \<Rightarrow> Commitment \<Rightarrow> bool"
  x_Reward :: "Block \<Rightarrow> uint64"
  x_FromPubKey :: "Pubkey \<Rightarrow> Address"
  x_GetNextDifficulty :: "chain \<Rightarrow> Block \<Rightarrow> error + Uint128"

definition Hash_of :: "extern \<Rightarrow> Block \<Rightarrow> Hash" where
  "Hash_of ext bl = Block_Hash (x_blake3 ext) (x_Serialize ext) bl"

text \<open>\<open>GetBlock\<close>: an absent or empty value is "block not found".\<close>

definition GetBlock :: "chain \<Rightarrow> Hash \<Rightarrow> error + Block" where
  "GetBlock st hash =
     (case BLOCK st hash of None \<Rightarrow> Inl (Err_block_not_found hash) | Some bl \<Rightarrow> Inr bl)"

section \<open>Arithmetic of \<open>Uint128\<close> used by the chain engine\<close>

text \<open>Modelled from the spec: \<open>Uint128.Add\<close>, \<open>Mul64\<close> and \<open>Div64\<close> are missing from
  the sources.  The spec's \<open>cumulative_diff\<close> is a u128 sum and product; the operations
  are the checked ones of the uint128 package whose names the callers use: a result that
  does not fit 128 bits panics, and so does a zero divisor.\<close>

definition Add :: "Uint128 \<Rightarrow> Uint128 \<Rightarrow> error + Uint128" where
  "Add u v = (if unat u + unat v < 2 ^ 128 then Inr (u + v) else Inl Panic_overflow)"

definition Mul64 :: "Uint128 \<Rightarrow> uint64 \<Rightarrow> error + Uint128" where
  "Mul64 u v = (if unat u * unat v < 2 ^ 128 then Inr (u * ucast v) else Inl Panic_overflow)"

definition Div64 :: "Uint128 \<Rightarrow> uint64 \<Rightarrow> error + Uint128" where
  "Div64 u v = (if v = 0 then Inl Panic_division_by_zero else Inr (u div ucast v))"

section \<open>\<open>checkBlock\<close>\<close>

text \<open>
  The inner loop \<open>for vid, v := range bl.Ancestors\<close>: every match at an index
  \<open>vid >= ancid\<close> overwrites \<open>heightDiff\<close>.
\<close>

definition scan_ancestors :: "Hash list \<Rightarrow> nat \<Rightarrow> Hash \<Rightarrow> int \<Rightarrow> int" where
  "scan_ancestors blAncestors ancid anc heightDiff =
     fold (\<lambda>(vid, v) cur. if vid \<ge> ancid \<and> v = anc then int vid - int ancid else cur)
          (enumerate 0 blAncestors) heightDiff"

text \<open>
  The loop \<open>for ancid, anc := range side.Ancestors\<close> over the remaining pairs
  \<open>(ancid, anc)\<close>, with the local \<open>heightDiff\<close>; \<open>break\<close> returns the current value.
\<close>

fun align_loop :: "Hash list \<Rightarrow> (nat \<times> Hash) list \<Rightarrow> int \<Rightarrow> error + int" where
  "align_loop blAncestors [] heightDiff = Inr heightDiff"
| "align_loop blAncestors ((ancid, anc) # rest) heightDiff =
     (if heightDiff = - 1 then
        align_loop blAncestors rest (scan_ancestors blAncestors ancid anc heightDiff)
      else if int ancid + heightDiff \<ge> int (length blAncestors) then Inr heightDiff
      else if anc \<noteq> blAncestors ! nat (int ancid + heightDiff)
        then Inl Err_subsequent_block_invalid
      else align_loop blAncestors rest heightDiff)"

definition check_side_ancestors :: "Hash list \<Rightarrow> Hash list \<Rightarrow> error option" where
  "check_side_ancestors blAncestors sideAncestors =
     (case align_loop blAncestors (enumerate 0 sideAncestors) (- 1) of
        Inl e \<Rightarrow> Some e
      | Inr heightDiff \<Rightarrow>
          if heightDiff = - 1 then Some Err_common_block_not_found else None)"

text \<open>The loop \<open>for _, anc := range bl.Ancestors[1:]\<close>.\<close>

fun included_in_ancestors :: "extern \<Rightarrow> chain \<Rightarrow> Commitment \<Rightarrow> Hash list \<Rightarrow> error option" where
  "included_in_ancestors ext st side [] = None"
| "included_in_ancestors ext st side (anc # rest) =
     (case GetBlock st anc of
        Inl e \<Rightarrow> Some e
      | Inr ancBl \<Rightarrow>
          if x_Equals ext side (x_Commitment ext ancBl)
            then Some (Err_side_block_already_included 3)
          else if \<exists>v \<in> set (SideBlocks ancBl). x_Equals ext side v
            then Some (Err_side_block_already_included 4)
          else if Height ancBl = 0 then None
          else included_in_ancestors ext st side rest)"

text \<open>The body of \<open>for _, side := range bl.SideBlocks\<close>.\<close>

definition check_side :: "extern \<Rightarrow> chain \<Rightarrow> Block \<Rightarrow> Block \<Rightarrow> Commitment \<Rightarrow> error option" where
  "check_side ext st bl prevBl side =
     (case check_side_ancestors (Ancestors bl) (c_Ancestors side) of
        Some e \<Rightarrow> Some e
      | None \<Rightarrow>
          if x_Equals ext side (x_Commitment ext prevBl)
            then Some (Err_side_block_already_included 1)
          else if \<exists>v \<in> set (SideBlocks prevBl). x_Equals ext side v
            then Some (Err_side_block_already_included 2)
          else if Height prevBl > 0
            then included_in_ancestors ext st side (tl (Ancestors bl))
          else None)"

fun check_sides ::
  "extern \<Rightarrow> chain \<Rightarrow> Block \<Rightarrow> Block \<Rightarrow> Commitment list \<Rightarrow> error option" where
  "check_sides ext st bl prevBl [] = None"
| "check_sides ext st bl prevBl (side # rest) =
     (case check_side ext st bl prevBl side of
        Some e \<Rightarrow> Some e
      | None \<Rightarrow> check_sides ext st bl prevBl rest)"

text \<open>\<open>checkBlock\<close>; \<open>None\<close> is the \<open>nil\<close> error.  \<open>sideDiff\<close> and \<open>newCumDiff\<close> are
  computed before the side blocks are looked at.\<close>

definition checkBlock :: "extern \<Rightarrow> chain \<Rightarrow> Block \<Rightarrow> Block \<Rightarrow> error option" where
  "checkBlock ext st bl prevBl =
     (case x_GetNextDifficulty ext st prevBl of
        Inl e \<Rightarrow> Some Err_failed_to_get_difficulty
      | Inr expectDiff \<Rightarrow>
          if \<not> Equals (Difficulty bl) expectDiff then Some Err_invalid_diff
          else if Height bl \<noteq> Height prevBl + 1 then Some Err_invalid_height
          else if Timestamp prevBl > Timestamp bl then Some Err_timestamp_older
          else
            (case Mul64 (Difficulty bl) (2 * of_nat (length (SideBlocks bl))) of
               Inl e \<Rightarrow> Some e
             | Inr m \<Rightarrow>
            (case Div64 m 3 of
               Inl e \<Rightarrow> Some e
             | Inr sideDiff \<Rightarrow>
            (case Add (CumulativeDiff prevBl) (Difficulty bl) of
               Inl e \<Rightarrow> Some e
             | Inr s \<Rightarrow>
            (case Add s sideDiff of
               Inl e \<Rightarrow> Some e
             | Inr newCumDiff \<Rightarrow>
            (case check_sides ext st bl prevBl (SideBlocks bl) of
               Some e \<Rightarrow> Some e
             | None \<Rightarrow>
                 if \<not> Equals (CumulativeDiff bl) newCumDiff
                 then Some Err_invalid_cumulative_diff
                 else None))))))"

section \<open>State engine\<close>

text \<open>
  Every function that writes to the database returns the error (\<open>None\<close> is \<open>nil\<close>)
  together with the database as it stands when the function returns: the writes made
  before an error are undone only when the caller of \<open>AddBlock\<close> aborts the enclosing
  transaction.
\<close>

text \<open>\<open>buckGetState\<close> returns the zero \<open>State\<close> next to its error for an unknown
  address; some callers ignore the error and go on with that value.\<close>

definition zero_State :: State where
  "zero_State = \<lparr>Balance = 0, LastNonce = 0, LastIncoming = 0\<rparr>"

definition buckGetState :: "chain \<Rightarrow> Address \<Rightarrow> State \<times> error option" where
  "buckGetState st addr =
     (case STATE st addr of
        None \<Rightarrow> (zero_State, Some (Err_address_not_in_state addr))
      | Some s \<Rightarrow> (s, None))"

definition buckSetState :: "chain \<Rightarrow> Address \<Rightarrow> State \<Rightarrow> chain" where
  "buckSetState st addr s = st\<lparr>STATE := (STATE st)(addr \<mapsto> s)\<rparr>"

definition SetTxTopoInc :: "chain \<Rightarrow> TXID \<Rightarrow> Address \<Rightarrow> uint64 \<Rightarrow> chain" where
  "SetTxTopoInc st txid addr incid = st\<lparr>INTX := (INTX st)(addr @ AddUvarint incid \<mapsto> txid)\<rparr>"

definition SetTxTopoOut :: "chain \<Rightarrow> TXID \<Rightarrow> Address \<Rightarrow> uint64 \<Rightarrow> chain" where
  "SetTxTopoOut st txid addr outid =
     st\<lparr>OUTTX := (OUTTX st)(addr @ AddUvarint outid \<mapsto> txid)\<rparr>"

text \<open>Modelled from the spec: \<open>buckGetTx\<close>, \<open>SetTxHeight\<close> and \<open>Mempool.DeleteEntry\<close>
  are missing from the sources.  The spec's \<open>TX\<close> bucket maps a txid to the serialized
  transaction and its metadata; a transaction referenced by a block but missing from
  \<open>TX\<close> is the failure \<open>UnknownTx\<close>; \<open>TX_HEIGHT[txid] = block.height\<close> overwrites the
  height; the mempool is a list of entries deduplicated by txid, from which an applied
  transaction is removed.\<close>

definition buckGetTx :: "chain \<Rightarrow> TXID \<Rightarrow> error + Transaction \<times> uint64" where
  "buckGetTx st txid =
     (case TX st txid of None \<Rightarrow> Inl (Err_tx_not_found txid) | Some th \<Rightarrow> Inr th)"

definition SetTxHeight :: "chain \<Rightarrow> TXID \<Rightarrow> uint64 \<Rightarrow> error option \<times> chain" where
  "SetTxHeight st txid height =
     (case TX st txid of
        None \<Rightarrow> (Some (Err_tx_not_found txid), st)
      | Some (t, h) \<Rightarrow> (None, st\<lparr>TX := (TX st)(txid \<mapsto> (t, height))\<rparr>))"

definition DeleteEntry :: "TXID list \<Rightarrow> TXID \<Rightarrow> TXID list" where
  "DeleteEntry pool t = filter (\<lambda>e. e \<noteq> t) pool"

subsection \<open>\<open>ApplyBlockToState\<close>\<close>

text \<open>The body of the loop \<open>for _, v := range bl.Transactions\<close>, on the database and the
  running \<open>totalFee\<close>.  The arithmetic is that of \<open>uint64\<close>.\<close>

definition apply_tx ::
  "extern \<Rightarrow> Block \<Rightarrow> chain \<times> uint64 \<Rightarrow> TXID \<Rightarrow> error option \<times> (chain \<times> uint64)" where
  "apply_tx ext bl s v =
     (case s of (st, totalFee) \<Rightarrow>
      case buckGetTx st v of
        Inl e \<Rightarrow> (Some e, s)
      | Inr (tx, _) \<Rightarrow>
          let senderAddr = x_FromPubKey ext (Sender tx) in
          case buckGetState st senderAddr of
            (_, Some e) \<Rightarrow> (Some e, s)
          | (senderState0, None) \<Rightarrow>
              if Balance senderState0 < Amount tx + Fee tx then (Some Err_spends_too_much, s)
              else if tx_Nonce tx \<noteq> LastNonce senderState0 + 1
                then (Some Err_unexpected_nonce, s)
              else
                let senderState = senderState0
                      \<lparr>Balance := Balance senderState0 - (Amount tx + Fee tx),
                       LastNonce := LastNonce senderState0 + 1\<rparr>;
                    st1 = buckSetState st senderAddr senderState;
                    recState0 = (case buckGetState st1 (tx_Recipient tx) of
                                   (_, Some e) \<Rightarrow> zero_State
                                 | (r, None) \<Rightarrow> r);
                    recState = recState0
                      \<lparr>Balance := Balance recState0 + Amount tx,
                       LastIncoming := LastIncoming recState0 + 1\<rparr>;
                    st2 = SetTxTopoInc st1 v (tx_Recipient tx) (LastIncoming recState);
                    st3 = SetTxTopoOut st2 v senderAddr (LastNonce senderState)
                in case SetTxHeight st3 v (Height bl) of
                     (Some e, st4) \<Rightarrow> (Some e, (st4, totalFee))
                   | (None, st4) \<Rightarrow>
                       (None, (buckSetState st4 (tx_Recipient tx) recState,
                               totalFee + Fee tx)))"

fun apply_txs ::
  "extern \<Rightarrow> Block \<Rightarrow> TXID list \<Rightarrow> chain \<times> uint64 \<Rightarrow> error option \<times> (chain \<times> uint64)" where
  "apply_txs ext bl [] s = (None, s)"
| "apply_txs ext bl (v # vs) s =
     (case apply_tx ext bl s v of
        (Some e, s') \<Rightarrow> (Some e, s')
      | (None, s') \<Rightarrow> apply_txs ext bl vs s')"

text \<open>The coinbase block of \<open>ApplyBlockToState\<close> and of \<open>RemoveBlockFromState\<close> compute
  the same two rewards.\<close>

definition governanceReward :: "config \<Rightarrow> extern \<Rightarrow> Block \<Rightarrow> uint64 \<Rightarrow> uint64" where
  "governanceReward cfg ext bl totalFee =
     (x_Reward ext bl + totalFee) * BLOCK_REWARD_FEE_PERCENT cfg div 100"

definition minerReward :: "config \<Rightarrow> extern \<Rightarrow> Block \<Rightarrow> uint64 \<Rightarrow> uint64" where
  "minerReward cfg ext bl totalFee =
     (x_Reward ext bl + totalFee) - governanceReward cfg ext bl totalFee"

definition apply_coinbase :: "config \<Rightarrow> extern \<Rightarrow> Block \<Rightarrow> chain \<Rightarrow> uint64 \<Rightarrow> chain" where
  "apply_coinbase cfg ext bl st totalFee =
     (let minerState0 = fst (buckGetState st (Recipient bl));
          minerState = minerState0
            \<lparr>Balance := Balance minerState0 + minerReward cfg ext bl totalFee,
             LastIncoming := LastIncoming minerState0 + 1\<rparr>;
          st1 = buckSetState st (Recipient bl) minerState;
          st2 = SetTxTopoInc st1 (Hash_of ext bl) (Recipient bl) (LastIncoming minerState);
          governanceState0 = fst (buckGetState st2 (GenesisAddress cfg));
          governanceState = governanceState0
            \<lparr>Balance := Balance governanceState0 + governanceReward cfg ext bl totalFee\<rparr>
      in buckSetState st2 (GenesisAddress cfg) governanceState)"

definition update_sync :: "Block \<Rightarrow> chain \<Rightarrow> chain" where
  "update_sync bl st =
     (if Cmp (SyncDiff st) (CumulativeDiff bl) < 0
      then st\<lparr>SyncHeight := Height bl, SyncDiff := CumulativeDiff bl\<rparr>
      else st)"

definition ApplyBlockToState :: "config \<Rightarrow> extern \<Rightarrow> chain \<Rightarrow> Block \<Rightarrow> error option \<times> chain" where
  "ApplyBlockToState cfg ext st bl =
     (let st0 = st\<lparr>mempool := fold (\<lambda>t pool. DeleteEntry pool t) (Transactions bl) (mempool st)\<rparr>
      in case apply_txs ext bl (Transactions bl) (st0, 0) of
           (Some e, (st1, _)) \<Rightarrow> (Some e, st1)
         | (None, (st1, totalFee)) \<Rightarrow>
             (None, update_sync bl (apply_coinbase cfg ext bl st1 totalFee)))"

subsection \<open>\<open>RemoveBlockFromState\<close>\<close>

text \<open>
  \<open>txs := make([]txCache, len(bl.Transactions))\<close> holds one zero \<open>txCache\<close> (zero hash,
  \<open>nil\<close> transaction) per transaction; the loop then appends the real entries behind
  them.  The result is the error of the first missing transaction, or the fee sum and
  the list.
\<close>

fun collect_txs ::
  "chain \<Rightarrow> TXID list \<Rightarrow> uint64 \<Rightarrow> (Hash \<times> Transaction option) list \<Rightarrow>
     error + uint64 \<times> (Hash \<times> Transaction option) list" where
  "collect_txs st [] totalFee txs = Inr (totalFee, txs)"
| "collect_txs st (v # vs) totalFee txs =
     (case buckGetTx st v of
        Inl e \<Rightarrow> Inl e
      | Inr (tx, _) \<Rightarrow> collect_txs st vs (totalFee + Fee tx) (txs @ [(v, Some tx)]))"

definition remove_coinbase ::
  "config \<Rightarrow> extern \<Rightarrow> Block \<Rightarrow> chain \<Rightarrow> uint64 \<Rightarrow> error option \<times> chain" where
  "remove_coinbase cfg ext bl st totalFee =
     (case buckGetState st (Recipient bl) of
        (_, Some e) \<Rightarrow> (Some e, st)
      | (minerState, None) \<Rightarrow>
          if Balance minerState < minerReward cfg ext bl totalFee
            then (Some Err_coinbase_balance_too_small, st)
          else if LastIncoming minerState = 0 then (Some Err_coinbase_LastIncoming_zero, st)
          else
            let st1 = buckSetState st (Recipient bl)
                  (minerState\<lparr>Balance := Balance minerState - minerReward cfg ext bl totalFee,
                              LastIncoming := LastIncoming minerState - 1\<rparr>)
            in case buckGetState st1 (GenesisAddress cfg) of
                 (_, Some e) \<Rightarrow> (Some e, st1)
               | (governanceState, None) \<Rightarrow>
                   if Balance governanceState < governanceReward cfg ext bl totalFee
                     then (Some Err_coinbase_balance_too_small, st1)
                   else (None, buckSetState st1 (GenesisAddress cfg)
                           (governanceState\<lparr>Balance := Balance governanceState -
                               governanceReward cfg ext bl totalFee\<rparr>)))"

text \<open>The body of the loop \<open>for i := len(txs) - 1; i >= 0; i--\<close>.  \<open>tx.Sender\<close> on a
  \<open>nil\<close> transaction is a nil-pointer dereference.\<close>

definition remove_tx ::
  "extern \<Rightarrow> Block \<Rightarrow> chain \<Rightarrow> Hash \<times> Transaction option \<Rightarrow> error option \<times> chain" where
  "remove_tx ext bl st entry =
     (case entry of
        (txhash, None) \<Rightarrow> (Some Panic_nil_dereference, st)
      | (txhash, Some tx) \<Rightarrow>
          let senderAddr = x_FromPubKey ext (Sender tx) in
          case buckGetState st (tx_Recipient tx) of
            (_, Some e) \<Rightarrow> (Some e, st)
          | (recState, None) \<Rightarrow>
              if Balance recState < Amount tx + Fee tx
                then (Some Err_recipient_balance_too_small, st)
              else if LastIncoming recState = 0
                then (Some Err_recipient_LastIncoming_zero, st)
              else
                let st1 = buckSetState st (tx_Recipient tx)
                      (recState\<lparr>Balance := Balance recState - Amount tx,
                                LastIncoming := LastIncoming recState - 1\<rparr>)
                in case buckGetState st1 senderAddr of
                     (_, Some e) \<Rightarrow> (Some e, st1)
                   | (senderState, None) \<Rightarrow>
                       if LastNonce senderState = 0
                         then (Some Err_sender_LastNonce_zero, st1)
                       else SetTxHeight
                              (buckSetState st1 senderAddr
                                 (senderState\<lparr>Balance := Balance senderState + Amount tx + Fee tx,
                                               LastNonce := LastNonce senderState - 1\<rparr>))
                              txhash (Height bl))"

fun remove_txs ::
  "extern \<Rightarrow> Block \<Rightarrow> (Hash \<times> Transaction option) list \<Rightarrow> chain \<Rightarrow> error option \<times> chain" where
  "remove_txs ext bl [] st = (None, st)"
| "remove_txs ext bl (entry # rest) st =
     (case remove_tx ext bl st entry of
        (Some e, st') \<Rightarrow> (Some e, st')
      | (None, st') \<Rightarrow> remove_txs ext bl rest st')"

text \<open>\<open>RemoveBlockFromState\<close>; the reverse loop runs over \<open>rev txs\<close>.\<close>

definition RemoveBlockFromState ::
  "config \<Rightarrow> extern \<Rightarrow> chain \<Rightarrow> Block \<Rightarrow> Hash \<Rightarrow> error option \<times> chain" where
  "RemoveBlockFromState cfg ext st bl blhash =
     (case collect_txs st (Transactions bl) 0
             (replicate (length (Transactions bl)) (zero_hash, None)) of
        Inl e \<Rightarrow> (Some e, st)
      | Inr (totalFee, txs) \<Rightarrow>
          (case remove_coinbase cfg ext bl st totalFee of
             (Some e, st1) \<Rightarrow> (Some e, st1)
           | (None, st1) \<Rightarrow> remove_txs ext bl (rev txs) st1))"

section \<open>Side-block alignment, stated apart from the loop\<close>




section \<open>Example data\<close>

text \<open>A small chain used to run the model: constants, external functions, a genesis
  block and a child of it that cites one side block.\<close>

definition ex_cfg :: config where
  "ex_cfg = \<lparr>NETWORK_ID = 1, IS_MASTERCHAIN = False, PARALLEL_BLOCKS_DOWNLOAD = 2,
     BLOCK_REWARD_FEE_PERCENT = 10, MINIDAG_ANCESTORS = 3, GenesisAddress = [0]\<rparr>"

definition ex_ext :: extern where
  "ex_ext = \<lparr>x_blake3 = take 32, x_Serialize = BaseHash,
     x_Commitment = (\<lambda>b. \<lparr>BaseHash = Recipient b, c_Timestamp = Timestamp b,
                            c_Ancestors = Ancestors b\<rparr>),
     x_Equals = (\<lambda>a b. a = b),
     x_Reward = (\<lambda>b. 100),
     x_FromPubKey = (\<lambda>k. k),
     x_GetNextDifficulty = (\<lambda>st prev. Inr 4)\<rparr>"

definition ex_genesis :: Block where
  "ex_genesis = \<lparr>Version = 0, Height = 0, Timestamp = 1000, Nonce = 0, NonceExtra = [],
     OtherChains = [], Recipient = [9], Ancestors = [[0], [0], [0]], SideBlocks = [],
     Difficulty = 1, CumulativeDiff = 1, Transactions = []\<rparr>"

definition ex_side :: Commitment where
  "ex_side = \<lparr>BaseHash = [7], c_Timestamp = 1000, c_Ancestors = [[1], [0], [0]]\<rparr>"

definition ex_child :: Block where
  "ex_child = \<lparr>Version = 0, Height = 1, Timestamp = 1001, Nonce = 0, NonceExtra = [],
     OtherChains = [], Recipient = [8], Ancestors = [[1], [0], [0]], SideBlocks = [ex_side],
     Difficulty = 4, CumulativeDiff = 7, Transactions = []\<rparr>"

definition ex_stats :: Stats where
  "ex_stats = \<lparr>TopHash = [1], TopHeight = 0, s_CumulativeDiff = 1,
     Tips = Map.empty, Orphans = Map.empty\<rparr>"

definition ex_chain :: chain where
  "ex_chain = \<lparr>BLOCK = [[1] \<mapsto> ex_genesis], TOPO = [0 \<mapsto> [1]], STATE = Map.empty,
     TX = Map.empty, INTX = Map.empty, OUTTX = Map.empty, stats = ex_stats, mempool = [],
     SyncHeight = 0, SyncDiff = 1, BlockQueue = []\<rparr>"

text \<open>A state with two funded accounts and one pending transfer of 10 (fee 1) from
  \<open>[5]\<close> to \<open>[6]\<close>, and a block at height 1 that contains it.\<close>

definition ex_tx :: Transaction where
  "ex_tx = \<lparr>Sender = [5], tx_Recipient = [6], Signature = [], tx_Nonce = 1, Amount = 10,
     Fee = 1, Subaddr = 0\<rparr>"

definition ex_chain_tx :: chain where
  "ex_chain_tx = ex_chain
     \<lparr>STATE := [[5] \<mapsto> \<lparr>Balance = 100, LastNonce = 0, LastIncoming = 0\<rparr>,
                 [6] \<mapsto> \<lparr>Balance = 50, LastNonce = 0, LastIncoming = 0\<rparr>],
      TX := [[42] \<mapsto> (ex_tx, 0)], mempool := [[42]]\<rparr>"

definition ex_txblock :: Block where
  "ex_txblock = \<lparr>Version = 0, Height = 1, Timestamp = 1001, Nonce = 0, NonceExtra = [],
     OtherChains = [], Recipient = [8], Ancestors = [[1], [0], [0]], SideBlocks = [],
     Difficulty = 4, CumulativeDiff = 5, Transactions = [[42]]\<rparr>"

text \<open>A block whose difficulty makes the side-block credit exceed 128 bits before the
  division: one side block, difficulty \<open>2^127 + 1\<close>, and the cumulative difficulty
  \<open>1 + (2^127 + 1) + \<lfloor>(2^128 + 2) / 3\<rfloor>\<close>.\<close>

definition ex_ext_big :: extern where
  "ex_ext_big = ex_ext\<lparr>x_GetNextDifficulty := (\<lambda>st prev. Inr (2 ^ 127 + 1))\<rparr>"

definition ex_big :: Block where
  "ex_big = ex_child\<lparr>Difficulty := 2 ^ 127 + 1,
     CumulativeDiff := 1 + (2 ^ 127 + 1) + 113427455640312821154458202477256070486\<rparr>"





section \<open>Properties\<close>

lemma Cmp_le_0_iff: "Cmp u v \<le> 0 \<longleftrightarrow> u \<le> v"
  by (auto simp: Cmp_def)

lemma unat_Max_u128: "unat Max_u128 = 2 ^ 128 - 1"
  by (simp add: Max_u128_def unsigned_minus_1_eq_mask mask_eq_exp_minus_1)

text \<open>
  Claim C6.  For every 128-bit PoW value and every nonzero 128-bit difficulty, the test
  \<open>val.Cmp(uint128.Max.Div(diff)) <= 0\<close> of \<open>ValidPowValue\<close> returns a result, and the result
  is true exactly when the product of the two, taken over the unbounded naturals, is at
  most \<open>2^128 - 1\<close>.
\<close>

theorem ValidPowValue_iff_product_le_max:
  "diff \<noteq> 0 \<Longrightarrow>
     ValidPowValue val diff = Inr (unat val * unat diff \<le> 2 ^ 128 - 1)"
proof -
  assume nz: "diff \<noteq> 0"
  then have pos: "0 < unat diff"
    by (simp add: unat_gt_0)
  have "Cmp val (Max_u128 div diff) \<le> 0 \<longleftrightarrow> unat val \<le> unat Max_u128 div unat diff"
    by (simp add: Cmp_le_0_iff word_le_nat_alt unat_div)
  also have "\<dots> \<longleftrightarrow> unat val * unat diff \<le> unat Max_u128"
    using pos by (rule less_eq_div_iff_mult_less_eq)
  finally show ?thesis
    using nz by (simp add: ValidPowValue_def Div_def unat_Max_u128)
qed

theorem ValidPowValue_iff_product_le_max_witness:
  "(3 :: Uint128) \<noteq> 0 \<and>
   ValidPowValue 5 3 = Inr (unat (5 :: Uint128) * unat (3 :: Uint128) \<le> 2 ^ 128 - 1)"
  using ValidPowValue_iff_product_le_max [of 3 5] by simp

text \<open>
  Claim C10.  A block whose \<open>Difficulty\<close> is zero serializes to \<open>nil\<close>, whatever its
  header, cumulative difficulty and transactions are, and its hash is therefore the
  BLAKE3-256 hash of the empty byte string.
\<close>

theorem Serialize_zero_difficulty_nil:
  "Difficulty b = 0 \<Longrightarrow>
     Serialize cser b = None \<and> Block_Hash blake3 cser b = blake3 []"
  by (simp add: Serialize_def Block_Hash_def IsZero_def bytes_of_def)

theorem Serialize_zero_difficulty_nil_witness:
  "Difficulty \<lparr>Version = 0, Height = 1, Timestamp = 300, Nonce = 7, NonceExtra = [1, 2],
       OtherChains = [], Recipient = [9], Ancestors = [[3], [4]], SideBlocks = [],
       Difficulty = 0, CumulativeDiff = 1, Transactions = [[5, 5]]\<rparr> = 0 \<and>
   Serialize BaseHash \<lparr>Version = 0, Height = 1, Timestamp = 300, Nonce = 7, NonceExtra = [1, 2],
       OtherChains = [], Recipient = [9], Ancestors = [[3], [4]], SideBlocks = [],
       Difficulty = 0, CumulativeDiff = 1, Transactions = [[5, 5]]\<rparr> = None \<and>
   Block_Hash (take 32) BaseHash
      \<lparr>Version = 0, Height = 1, Timestamp = 300, Nonce = 7, NonceExtra = [1, 2],
       OtherChains = [], Recipient = [9], Ancestors = [[3], [4]], SideBlocks = [],
       Difficulty = 0, CumulativeDiff = 1, Transactions = [[5, 5]]\<rparr> = take 32 []"
  using Serialize_zero_difficulty_nil [of "\<lparr>Version = 0, Height = 1, Timestamp = 300,
       Nonce = 7, NonceExtra = [1, 2],
       OtherChains = [], Recipient = [9], Ancestors = [[3], [4]], SideBlocks = [],
       Difficulty = 0, CumulativeDiff = 1, Transactions = [[5, 5]]\<rparr>" BaseHash "take 32"]
  by simp

text \<open>
  Claim C7 asks \<open>SetMiningBlob\<close> to fail on every mining blob in which the current
  network id does not occur exactly once, and to collect all chains of other networks.
  The branch of a chain of another network returns \<open>nil\<close> at once: with
  \<open>NETWORK_ID = 1\<close>, the blob of the two chains 7 and 9, which has no chain of the
  current network, is accepted, and only the first chain reaches \<open>OtherChains\<close>.
\<close>

theorem SetMiningBlob_accepts_blob_without_network_id:
  "SetMiningBlob
     \<lparr>NETWORK_ID = 1, IS_MASTERCHAIN = False, PARALLEL_BLOCKS_DOWNLOAD = 2,
      BLOCK_REWARD_FEE_PERCENT = 10, MINIDAG_ANCESTORS = 3, GenesisAddress = [0]\<rparr>
     b
     \<lparr>mb_Timestamp = 5, mb_Nonce = 6, mb_NonceExtra = [],
      Chains = [\<lparr>NetworkID = 7, hid_Hash = [1]\<rparr>, \<lparr>NetworkID = 9, hid_Hash = [2]\<rparr>]\<rparr>
   = (None, b\<lparr>Timestamp := 5, Nonce := 6, NonceExtra := [],
               OtherChains := [\<lparr>NetworkID = 7, hid_Hash = [1]\<rparr>]\<rparr>)"
  by (simp add: SetMiningBlob_def setMiningBlob_def has_duplicate_def)

declare fillQueue_loop.simps [simp del]

lemma fillQueue_loop_full:
  "PARALLEL_BLOCKS_DOWNLOAD cfg < n \<Longrightarrow> fillQueue_loop cfg i s n qt = qt"
  by (subst fillQueue_loop.simps) simp

lemma SetBlock_fresh:
  "\<forall>e \<in> set qt. qb_Height e \<noteq> i \<Longrightarrow>
     SetBlock qt (NewQueuedBlock i h) False = qt @ [NewQueuedBlock i h]"
  by (auto simp: SetBlock_def same_key_def NewQueuedBlock_def)

text \<open>The loop adds one entry per round as long as the heights are new to the queue and
  the counter has not passed the limit: \<open>k\<close> rounds are left when the counter is
  \<open>n = limit + 1 - k\<close>.\<close>

lemma fillQueue_loop_length:
  "\<forall>e \<in> set qt. qb_Height e < i \<Longrightarrow>
   n + k = PARALLEL_BLOCKS_DOWNLOAD cfg + 1 \<Longrightarrow>
   unat i + k \<le> unat s + 1 \<Longrightarrow>
   length (fillQueue_loop cfg i s n qt) = length qt + k"
proof (induction k arbitrary: i n qt)
  case 0
  then show ?case by (simp add: fillQueue_loop_full)
next
  case (Suc k)
  from Suc.prems have le: "i \<le> s" and nP: "\<not> PARALLEL_BLOCKS_DOWNLOAD cfg < n"
    by (simp_all add: word_le_nat_alt)
  from Suc.prems(1) have fresh: "\<forall>e \<in> set qt. qb_Height e \<noteq> i"
    by auto
  let ?qt = "qt @ [NewQueuedBlock i zero_hash]"
  have step: "fillQueue_loop cfg i s n qt = fillQueue_loop cfg (i + 1) s (n + 1) ?qt"
    using le nP by (subst fillQueue_loop.simps) (simp add: SetBlock_fresh [OF fresh])
  show ?case
  proof (cases k)
    case 0
    with Suc.prems have "PARALLEL_BLOCKS_DOWNLOAD cfg < n + 1" by simp
    then show ?thesis using 0 step by (simp add: fillQueue_loop_full)
  next
    case (Suc k')
    with Suc.prems have lt: "unat i < unat s" by simp
    have "unat s < 2 ^ 64" using unsigned_less [of s] by simp
    with lt have ui: "unat (i + 1) = unat i + 1"
      by (simp add: unat_word_ariths)
    have "\<forall>e \<in> set ?qt. qb_Height e < i + 1"
      using Suc.prems(1) ui by (auto simp: word_less_nat_alt NewQueuedBlock_def)
    moreover have "(n + 1) + k = PARALLEL_BLOCKS_DOWNLOAD cfg + 1"
      using Suc.prems by simp
    moreover have "unat (i + 1) + k \<le> unat s + 1"
      using Suc.prems ui by simp
    ultimately have "length (fillQueue_loop cfg (i + 1) s (n + 1) ?qt) = length ?qt + k"
      by (rule Suc.IH)
    then show ?thesis using step by simp
  qed
qed

text \<open>
  Claim C9 bounds the queue length after \<open>fillQueue\<close> by \<open>PARALLEL_BLOCKS_DOWNLOAD\<close>.
  The loop of \<open>fillQueue\<close> stops on \<open>n > PARALLEL_BLOCKS_DOWNLOAD\<close>, one round late:
  for every positive limit, an empty queue and a sync height at least \<open>limit + 1\<close>
  above the top height, the queue holds \<open>limit + 1\<close> entries afterwards.
\<close>

theorem fillQueue_exceeds_limit:
  assumes "0 < PARALLEL_BLOCKS_DOWNLOAD cfg"
    and "unat topHeight + PARALLEL_BLOCKS_DOWNLOAD cfg + 1 \<le> unat syncHeight"
  shows "Length (fillQueue cfg syncHeight [] topHeight) = PARALLEL_BLOCKS_DOWNLOAD cfg + 1"
proof -
  have lt: "topHeight < syncHeight"
    using assms by (simp add: word_less_nat_alt)
  have "unat syncHeight < 2 ^ 64" using unsigned_less [of syncHeight] by simp
  with assms have ut: "unat (topHeight + 1) = unat topHeight + 1"
    by (simp add: unat_word_ariths)
  have "length (fillQueue_loop cfg (topHeight + 1) syncHeight 0 []) =
          length ([] :: QueueTx) + (PARALLEL_BLOCKS_DOWNLOAD cfg + 1)"
    by (rule fillQueue_loop_length) (use assms ut in simp_all)
  then show ?thesis
    using assms lt by (simp add: fillQueue_def Length_def)
qed

theorem fillQueue_exceeds_limit_witness:
  "Length (fillQueue
     \<lparr>NETWORK_ID = 1, IS_MASTERCHAIN = False, PARALLEL_BLOCKS_DOWNLOAD = 2,
      BLOCK_REWARD_FEE_PERCENT = 10, MINIDAG_ANCESTORS = 3, GenesisAddress = [0]\<rparr>
     5 [] 0) = 3"
  using fillQueue_exceeds_limit [of
     "\<lparr>NETWORK_ID = 1, IS_MASTERCHAIN = False, PARALLEL_BLOCKS_DOWNLOAD = 2,
      BLOCK_REWARD_FEE_PERCENT = 10, MINIDAG_ANCESTORS = 3, GenesisAddress = [0]\<rparr>" 0 5]
  by simp

subsection \<open>\<open>checkBlock\<close>: timestamp and cumulative difficulty\<close>

lemma check_side_Timestamp_update:
  "check_side ext st (bl\<lparr>Timestamp := t\<rparr>) prevBl side = check_side ext st bl prevBl side"
  by (simp add: check_side_def cong: option.case_cong if_cong)

lemma check_sides_Timestamp_update:
  "check_sides ext st (bl\<lparr>Timestamp := t\<rparr>) prevBl sides = check_sides ext st bl prevBl sides"
  by (induction sides) (simp_all add: check_side_Timestamp_update cong: option.case_cong)

text \<open>
  Claim C4 asks \<open>checkBlock\<close> to reject a block whose timestamp equals its parent's.
  The test is \<open>prevBl.Timestamp > bl.Timestamp\<close>, so equality passes: every block that
  \<open>checkBlock\<close> accepts is still accepted after its timestamp is replaced by the
  parent's timestamp.
\<close>

theorem checkBlock_accepts_parent_timestamp:
  assumes "checkBlock ext st bl prevBl = None"
  shows "checkBlock ext st (bl\<lparr>Timestamp := Timestamp prevBl\<rparr>) prevBl = None"
  using assms
  by (auto simp: checkBlock_def check_sides_Timestamp_update
           split: sum.splits if_splits option.splits)

theorem checkBlock_accepts_parent_timestamp_witness:
  "checkBlock ex_ext ex_chain ex_child ex_genesis = None \<and>
   Timestamp (ex_child\<lparr>Timestamp := Timestamp ex_genesis\<rparr>) = Timestamp ex_genesis \<and>
   checkBlock ex_ext ex_chain (ex_child\<lparr>Timestamp := Timestamp ex_genesis\<rparr>) ex_genesis = None"
proof -
  have ok: "checkBlock ex_ext ex_chain ex_child ex_genesis = None"
    by (simp add: checkBlock_def ex_ext_def ex_child_def ex_genesis_def ex_side_def
          Equals_def Mul64_def Div64_def Add_def check_side_def check_side_ancestors_def
          scan_ancestors_def)
  from checkBlock_accepts_parent_timestamp [OF ok] ok show ?thesis
    by simp
qed

lemma unat_ucast_64_128: "unat (ucast (v :: uint64) :: Uint128) = unat v"
proof -
  have "unat v < 2 ^ 128"
    using unsigned_less [of v, where 'a = nat] by simp
  then show ?thesis
    by (simp add: unsigned_ucast_eq take_bit_nat_eq_self)
qed

lemma unat_Mul64:
  "unat u * unat (v :: uint64) < 2 ^ 128 \<Longrightarrow>
     unat (u * ucast v :: Uint128) = unat u * unat v"
  by (simp add: unat_word_ariths unat_ucast_64_128)

lemma unat_two_len:
  "2 * n < 2 ^ 64 \<Longrightarrow> unat (2 * of_nat n :: uint64) = 2 * n"
  by (simp add: unat_word_ariths unat_of_nat)

text \<open>
  The three outcomes of the last check of \<open>checkBlock\<close> when every other check
  passes and the product \<open>difficulty * (2 * |side_blocks|)\<close> fits 128 bits: accepted,
  rejected as an invalid cumulative difficulty, or the overflow of \<open>Add\<close> when the
  expected sum does not fit 128 bits.
\<close>

lemma checkBlock_cumulative_diff_cases:
  assumes nd: "x_GetNextDifficulty ext st prevBl = Inr (Difficulty bl)"
    and h: "Height bl = Height prevBl + 1"
    and t: "Timestamp prevBl \<le> Timestamp bl"
    and sides: "check_sides ext st bl prevBl (SideBlocks bl) = None"
    and len: "2 * length (SideBlocks bl) < 2 ^ 64"
    and prod: "unat (Difficulty bl) * (2 * length (SideBlocks bl)) < 2 ^ 128"
  shows "checkBlock ext st bl prevBl =
     (if unat (CumulativeDiff bl) =
           unat (CumulativeDiff prevBl) + unat (Difficulty bl) +
           unat (Difficulty bl) * (2 * length (SideBlocks bl)) div 3
      then None
      else if unat (CumulativeDiff prevBl) + unat (Difficulty bl) +
           unat (Difficulty bl) * (2 * length (SideBlocks bl)) div 3 < 2 ^ 128
      then Some Err_invalid_cumulative_diff
      else Some Panic_overflow)"
proof -
  let ?n = "length (SideBlocks bl)"
  let ?d = "Difficulty bl"
  let ?p = "CumulativeDiff prevBl"
  let ?w = "2 * of_nat ?n :: uint64"
  let ?m = "?d * ucast ?w :: Uint128"
  let ?side = "?m div ucast (3 :: uint64) :: Uint128"
  have w: "unat ?w = 2 * ?n" using len by (rule unat_two_len)
  have m: "unat ?m = unat ?d * (2 * ?n)"
    using prod w unat_Mul64 [of ?d ?w] by simp
  have mul: "Mul64 ?d ?w = Inr ?m"
    using prod w by (simp add: Mul64_def)
  have div: "Div64 ?m 3 = Inr ?side"
    by (simp add: Div64_def)
  have side: "unat ?side = unat ?d * (2 * ?n) div 3"
    using m by (simp add: unat_div)
  have cd: "unat (CumulativeDiff bl) < 2 ^ 128"
    using unsigned_less [of "CumulativeDiff bl"] by simp
  have tt: "\<not> Timestamp bl < Timestamp prevBl" using t by simp
  show ?thesis
  proof (cases "unat ?p + unat ?d < 2 ^ 128")
    case False
    then show ?thesis
      using nd h tt mul div cd side
      by (simp add: checkBlock_def Equals_def Add_def)
  next
    case True
    then have s: "unat (?p + ?d) = unat ?p + unat ?d"
      by (simp add: unat_word_ariths)
    show ?thesis
    proof (cases "unat ?p + unat ?d + unat ?side < 2 ^ 128")
      case False
      then show ?thesis
        using nd h tt mul div cd side True s
        by (simp add: checkBlock_def Equals_def Add_def)
    next
      case T2: True
      then have s2: "unat (?p + ?d + ?side) = unat ?p + unat ?d + unat ?side"
        using s by (simp add: unat_word_ariths)
      have eq: "CumulativeDiff bl = ?p + ?d + ?side \<longleftrightarrow>
                unat (CumulativeDiff bl) = unat ?p + unat ?d + unat ?side"
        using s2 by (metis word_unat_eq_iff)
      show ?thesis
        using nd h tt mul div sides True s T2 eq side
        by (simp add: checkBlock_def Equals_def Add_def)
    qed
  qed
qed

lemma ex_check_sides:
  "check_sides ex_ext ex_chain ex_child ex_genesis (SideBlocks ex_child) = None"
  by (simp add: ex_ext_def ex_child_def ex_genesis_def ex_side_def check_side_def
        check_side_ancestors_def scan_ancestors_def)

text \<open>
  Claim C3, amended.  When the difficulty, height, timestamp and side-block checks of
  \<open>checkBlock\<close> pass, and both the product \<open>difficulty * (2 * |side_blocks|)\<close> and the
  expected value \<open>parent.cumulative_diff + difficulty +
  \<lfloor>difficulty * (2 * |side_blocks|) / 3\<rfloor>\<close> fit 128 bits, the block is accepted if and
  only if its cumulative difficulty is that value (the product taken before the
  division), and every other value is rejected as an invalid cumulative difficulty.
  A Go slice has fewer than \<open>2^63\<close> elements, so \<open>2 * |side_blocks|\<close> fits 64 bits.
\<close>

theorem checkBlock_cumulative_diff:
  assumes nd: "x_GetNextDifficulty ext st prevBl = Inr (Difficulty bl)"
    and h: "Height bl = Height prevBl + 1"
    and t: "Timestamp prevBl \<le> Timestamp bl"
    and sides: "check_sides ext st bl prevBl (SideBlocks bl) = None"
    and len: "2 * length (SideBlocks bl) < 2 ^ 64"
    and prod: "unat (Difficulty bl) * (2 * length (SideBlocks bl)) < 2 ^ 128"
    and fit: "unat (CumulativeDiff prevBl) + unat (Difficulty bl) +
           unat (Difficulty bl) * (2 * length (SideBlocks bl)) div 3 < 2 ^ 128"
  shows "checkBlock ext st bl prevBl =
     (if unat (CumulativeDiff bl) =
           unat (CumulativeDiff prevBl) + unat (Difficulty bl) +
           unat (Difficulty bl) * (2 * length (SideBlocks bl)) div 3
      then None
      else Some Err_invalid_cumulative_diff)"
  using checkBlock_cumulative_diff_cases [OF nd h t sides len prod] fit
  by simp

theorem checkBlock_cumulative_diff_witness:
  "checkBlock ex_ext ex_chain ex_child ex_genesis = None \<and>
   checkBlock ex_ext ex_chain (ex_child\<lparr>CumulativeDiff := 6\<rparr>) ex_genesis =
     Some Err_invalid_cumulative_diff"
proof -
  have a: "checkBlock ex_ext ex_chain ex_child ex_genesis = None"
    using checkBlock_cumulative_diff [of ex_ext ex_chain ex_genesis ex_child] ex_check_sides
    by (simp add: ex_ext_def ex_child_def ex_genesis_def)
  have "check_sides ex_ext ex_chain (ex_child\<lparr>CumulativeDiff := 6\<rparr>) ex_genesis
          (SideBlocks (ex_child\<lparr>CumulativeDiff := 6\<rparr>)) = None"
    by (simp add: ex_ext_def ex_child_def ex_genesis_def ex_side_def check_side_def
          check_side_ancestors_def scan_ancestors_def)
  then have b: "checkBlock ex_ext ex_chain (ex_child\<lparr>CumulativeDiff := 6\<rparr>) ex_genesis =
     Some Err_invalid_cumulative_diff"
    using checkBlock_cumulative_diff
            [of ex_ext ex_chain ex_genesis "ex_child\<lparr>CumulativeDiff := 6\<rparr>"]
    by (simp add: ex_ext_def ex_child_def ex_genesis_def)
  from a b show ?thesis by simp
qed

lemma Div64_3_below_third:
  "Div64 m 3 = Inr q \<Longrightarrow> unat q < (2 ^ 128 + 2) div 3"
proof -
  assume "Div64 m 3 = Inr q"
  then have q: "q = m div 3" by (simp add: Div64_def)
  have "unat m < 2 ^ 128"
    using unsigned_less [of m, where 'a = nat] by simp
  then show ?thesis
    by (simp add: q unat_div)
qed

text \<open>
  Claim C3 as stated puts no bound on the difficulty.  The block \<open>ex_big\<close> passes the
  difficulty, height, timestamp and side-block checks, and its cumulative difficulty is
  exactly \<open>parent.cumulative_diff + difficulty + \<lfloor>difficulty * 2 * |side_blocks| / 3\<rfloor>\<close>,
  a value that fits 128 bits; but the product \<open>(2^127 + 1) * 2\<close> that \<open>Mul64\<close> has to
  form before the division does not, and the block is not accepted.  (No 128-bit value
  \<open>m\<close> has \<open>m div 3 = \<lfloor>(2^128 + 2) / 3\<rfloor>\<close>, so this does not depend on what \<open>Mul64\<close>
  does with a product that is too large.)
\<close>

theorem checkBlock_cumulative_diff_product_overflow:
  "x_GetNextDifficulty ex_ext_big ex_chain ex_genesis = Inr (Difficulty ex_big) \<and>
   Height ex_big = Height ex_genesis + 1 \<and>
   Timestamp ex_genesis < Timestamp ex_big \<and>
   check_sides ex_ext_big ex_chain ex_big ex_genesis (SideBlocks ex_big) = None \<and>
   unat (CumulativeDiff ex_big) =
     unat (CumulativeDiff ex_genesis) + unat (Difficulty ex_big) +
     unat (Difficulty ex_big) * (2 * length (SideBlocks ex_big)) div 3 \<and>
   checkBlock ex_ext_big ex_chain ex_big ex_genesis \<noteq> None"
  by (simp add: checkBlock_def ex_ext_big_def ex_big_def ex_ext_def ex_child_def
        ex_genesis_def ex_side_def Equals_def Mul64_def Div64_def Add_def check_side_def
        check_side_ancestors_def scan_ancestors_def word_less_nat_alt)

subsection \<open>\<open>checkBlock\<close>: alignment of the ancestors of a side block\<close>



















subsection \<open>\<open>RemoveBlockFromState\<close> on a block with transactions\<close>

lemma remove_txs_nil_entry:
  "fst (remove_txs ext bl (xs @ [(h, None)]) st) \<noteq> None"
proof (induction xs arbitrary: st)
  case Nil
  show ?case by (simp add: remove_tx_def)
next
  case (Cons x xs)
  show ?case
  proof (cases "remove_tx ext bl st x")
    case (Pair err st')
    then show ?thesis
      using Cons.IH [of st'] by (cases err) simp_all
  qed
qed

lemma collect_txs_extends:
  "collect_txs st vs totalFee txs = Inr (f, txs') \<Longrightarrow> \<exists>ys. txs' = txs @ ys"
proof (induction vs arbitrary: totalFee txs)
  case Nil
  then show ?case by simp
next
  case (Cons v vs)
  then show ?case
    by (fastforce split: sum.splits prod.splits)
qed

text \<open>
  Claim C1 asks \<open>RemoveBlockFromState\<close> to undo \<open>ApplyBlockToState\<close> for blocks with
  any number of transactions.  \<open>RemoveBlockFromState\<close> builds \<open>txs\<close> with
  \<open>make([]txCache, len(bl.Transactions))\<close> and then appends, so the reverse loop ends on
  entries whose transaction is \<open>nil\<close>: on every database and every block that has at
  least one transaction, \<open>RemoveBlockFromState\<close> ends in an error or a panic.
\<close>

theorem RemoveBlockFromState_fails_with_transactions:
  assumes "Transactions bl \<noteq> []"
  shows "fst (RemoveBlockFromState cfg ext st bl blhash) \<noteq> None"
proof (cases "collect_txs st (Transactions bl) 0
                (replicate (length (Transactions bl)) (zero_hash, None))")
  case (Inl e)
  then show ?thesis by (simp add: RemoveBlockFromState_def)
next
  case (Inr r)
  obtain totalFee txs where r: "r = (totalFee, txs)" by (cases r)
  from Inr r collect_txs_extends obtain ys where
    txs: "txs = replicate (length (Transactions bl)) (zero_hash, None) @ ys"
    by blast
  from assms obtain n where n: "length (Transactions bl) = Suc n"
    by (cases "Transactions bl") auto
  have "rev txs = (rev ys @ replicate n (zero_hash, None)) @ [(zero_hash, None)]"
    using txs n by (simp add: replicate_append_same)
  then have fails: "fst (remove_txs ext bl (rev txs) st1) \<noteq> None" for st1
    using remove_txs_nil_entry [of ext bl "rev ys @ replicate n (zero_hash, None)"] by simp
  show ?thesis
  proof (cases "remove_coinbase cfg ext bl st totalFee")
    case (Pair err st1)
    then show ?thesis
      using Inr r fails [of st1] by (cases err) (simp_all add: RemoveBlockFromState_def)
  qed
qed

lemma AddUvarint_1: "AddUvarint 1 = [1]"
  by (simp add: word_le_nat_alt)

lemma ex_apply:
  "ApplyBlockToState ex_cfg ex_ext ex_chain_tx ex_txblock =
     (None, ex_chain_tx
        \<lparr>STATE := [[5] \<mapsto> \<lparr>Balance = 89, LastNonce = 1, LastIncoming = 0\<rparr>,
                    [6] \<mapsto> \<lparr>Balance = 60, LastNonce = 0, LastIncoming = 1\<rparr>,
                    [8] \<mapsto> \<lparr>Balance = 91, LastNonce = 0, LastIncoming = 1\<rparr>,
                    [0] \<mapsto> \<lparr>Balance = 10, LastNonce = 0, LastIncoming = 0\<rparr>],
         TX := [[42] \<mapsto> (ex_tx, 1)],
         INTX := [[6, 1] \<mapsto> [42], [8, 1] \<mapsto> Hash_of ex_ext ex_txblock],
         OUTTX := [[5, 1] \<mapsto> [42]],
         mempool := [], SyncHeight := 1, SyncDiff := 5\<rparr>)"
  by (simp add: ApplyBlockToState_def apply_tx_def apply_coinbase_def update_sync_def
        buckGetTx_def buckGetState_def buckSetState_def SetTxTopoInc_def SetTxTopoOut_def
        SetTxHeight_def DeleteEntry_def minerReward_def governanceReward_def zero_State_def
        Cmp_def ex_cfg_def ex_ext_def ex_chain_tx_def ex_chain_def ex_txblock_def ex_tx_def
        Let_def AddUvarint_1 del: AddUvarint.simps)

theorem RemoveBlockFromState_fails_with_transactions_witness:
  "fst (ApplyBlockToState ex_cfg ex_ext ex_chain_tx ex_txblock) = None \<and>
   Transactions ex_txblock \<noteq> [] \<and>
   fst (RemoveBlockFromState ex_cfg ex_ext
          (snd (ApplyBlockToState ex_cfg ex_ext ex_chain_tx ex_txblock)) ex_txblock [2])
     \<noteq> None"
  using RemoveBlockFromState_fails_with_transactions
          [of ex_txblock ex_cfg ex_ext
              "snd (ApplyBlockToState ex_cfg ex_ext ex_chain_tx ex_txblock)" "[2]"]
  by (simp add: ex_apply) (simp add: ex_txblock_def)

subsection \<open>Blocks without transactions are undone\<close>

text \<open>
  For a block without transactions whose miner and governance accounts exist, are different and
  do not overflow, the removal restores the account table.
\<close>

lemma word_add_sub_no_ovf:
  "unat (a :: uint64) + unat b < 2 ^ 64 \<Longrightarrow> \<not> a + b < b"
  by (simp add: word_less_nat_alt unat_word_ariths)

lemma empty_block_round_trip:
  assumes nil: "Transactions bl = []"
    and m: "STATE st (Recipient bl) = Some m"
    and g: "STATE st (GenesisAddress cfg) = Some g"
    and diff: "Recipient bl \<noteq> GenesisAddress cfg"
    and bm: "unat (Balance m) + unat (minerReward cfg ext bl 0) < 2 ^ 64"
    and bg: "unat (Balance g) + unat (governanceReward cfg ext bl 0) < 2 ^ 64"
    and li: "LastIncoming m + 1 \<noteq> 0"
  shows "fst (ApplyBlockToState cfg ext st bl) = None \<and>
         fst (RemoveBlockFromState cfg ext (snd (ApplyBlockToState cfg ext st bl)) bl h) = None \<and>
         STATE (snd (RemoveBlockFromState cfg ext (snd (ApplyBlockToState cfg ext st bl)) bl h))
           = STATE st"
proof -
  let ?mr = "minerReward cfg ext bl 0"
  let ?gr = "governanceReward cfg ext bl 0"
  let ?m1 = "m\<lparr>Balance := Balance m + ?mr, LastIncoming := LastIncoming m + 1\<rparr>"
  let ?g1 = "g\<lparr>Balance := Balance g + ?gr\<rparr>"
  let ?S1 = "(STATE st)(Recipient bl \<mapsto> ?m1, GenesisAddress cfg \<mapsto> ?g1)"
  have a: "\<not> Balance m + ?mr < ?mr"
    using bm by (rule word_add_sub_no_ovf)
  have b: "\<not> Balance g + ?gr < ?gr"
    using bg by (rule word_add_sub_no_ovf)
  obtain st1 where ap: "ApplyBlockToState cfg ext st bl = (None, st1)"
    and S1: "STATE st1 = ?S1"
    using nil m g diff
    by (simp add: ApplyBlockToState_def apply_coinbase_def update_sync_def buckGetState_def
          buckSetState_def SetTxTopoInc_def Let_def)
  have look_m: "STATE st1 (Recipient bl) = Some ?m1"
    using diff by (simp add: S1)
  have rc: "remove_coinbase cfg ext bl st1 0 =
        (None, st1\<lparr>STATE := (STATE st1)(Recipient bl \<mapsto> m, GenesisAddress cfg \<mapsto> g)\<rparr>)"
    using look_m diff a b li
    by (simp add: remove_coinbase_def buckGetState_def buckSetState_def S1 Let_def)
  have rm: "RemoveBlockFromState cfg ext st1 bl h =
        (None, st1\<lparr>STATE := (STATE st1)(Recipient bl \<mapsto> m, GenesisAddress cfg \<mapsto> g)\<rparr>)"
    using nil rc by (simp add: RemoveBlockFromState_def)
  have "(STATE st1)(Recipient bl \<mapsto> m, GenesisAddress cfg \<mapsto> g) = STATE st"
    using m g by (auto simp: S1 fun_eq_iff)
  then show ?thesis
    using ap rm by simp
qed

end
